theory Spec2Isabelle
  imports Main "HOL-Library.Sublist"
begin

section \<open>The graph builder of \<open>src/ast_parser.py\<close>\<close>

text \<open>
  The script is Python 2 (its last function uses the \<open>print\<close> statement). It keeps one
  module-level integer, \<open>handle\<close>, and builds text by string concatenation. The
  embedding below keeps the function names of the script. Every function of the script is
  a state transformer that may raise: it takes the program state and returns either an
  error or a value, together with the state it leaves behind.
\<close>

subsection \<open>Values, errors and the program state\<close>

text \<open>
  The Python values considered as arguments: byte strings (the type \<open>str\<close> of every
  literal in the script), integers and \<open>None\<close>. Python's \<open>unicode\<close> objects and user
  classes are outside the model.
\<close>

datatype pyval = StrV string | IntV int | NoneV

datatype error = TypeError | IndexError

text \<open>
  The state: the module-level counter \<open>handle\<close>, and the text written to standard
  output so far.
\<close>

record state =
  handle :: int
  stdout :: string

type_synonym 'a result = "error + 'a"

type_synonym 'a prog = "state \<Rightarrow> 'a result \<times> state"

definition ret :: "'a \<Rightarrow> 'a prog" where
  "ret v s = (Inr v, s)"

text \<open>A pure expression inside a function body: its value or its exception, no effect.\<close>

definition pure :: "'a result \<Rightarrow> 'a prog" where
  "pure r s = (r, s)"

text \<open>Sequencing: an exception ends the function body, with the state reached so far.\<close>

definition bind :: "'a prog \<Rightarrow> ('a \<Rightarrow> 'b prog) \<Rightarrow> 'b prog" where
  "bind m f s = (case m s of (Inl e, s') \<Rightarrow> (Inl e, s') | (Inr v, s') \<Rightarrow> f v s')"

subsection \<open>The built-in operations the script uses\<close>

text \<open>Python's \<open>str\<close> on an integer: the decimal digits, with a minus sign when negative.\<close>

definition digit_char :: "nat \<Rightarrow> char" where
  "digit_char d = ''0123456789'' ! d"

fun str_nat :: "nat \<Rightarrow> string" where
  "str_nat n =
     (if n < 10 then [digit_char n] else str_nat (n div 10) @ [digit_char (n mod 10)])"

declare str_nat.simps [simp del]

definition str_int :: "int \<Rightarrow> string" where
  "str_int i = (if i < 0 then CHR ''-'' # str_nat (nat (- i)) else str_nat (nat i))"

text \<open>
  Python's binary \<open>+\<close>: concatenation of two strings, the sum of two integers, and
  \<open>TypeError\<close> for every other pair of operands.
\<close>

fun py_add :: "pyval \<Rightarrow> pyval \<Rightarrow> pyval result" where
  "py_add (StrV a) (StrV b) = Inr (StrV (a @ b))"
| "py_add (IntV a) (IntV b) = Inr (IntV (a + b))"
| "py_add _ _ = Inl TypeError"

text \<open>
  \<open>a + b\<close> as an expression: the left operand is evaluated first, then the right one,
  then the operation; the first exception wins.
\<close>

fun add :: "pyval result \<Rightarrow> pyval result \<Rightarrow> pyval result" where
  "add (Inl e) _ = Inl e"
| "add (Inr a) (Inl e) = Inl e"
| "add (Inr a) (Inr b) = py_add a b"

text \<open>
  \<open>xs[i]\<close> on a Python list: position \<open>i\<close> from the front when \<open>i\<close> is not negative,
  position \<open>len(xs) + i\<close> when it is, and \<open>IndexError\<close> outside the list.
\<close>

definition index :: "'a list \<Rightarrow> int \<Rightarrow> 'a result" where
  "index xs i =
     (if 0 \<le> i \<and> i < int (length xs) then Inr (xs ! nat i)
      else if i < 0 \<and> - int (length xs) \<le> i then Inr (xs ! nat (int (length xs) + i))
      else Inl IndexError)"

text \<open>What the \<open>print\<close> statement writes for a value: \<open>str\<close> of it.\<close>

fun py_str :: "pyval \<Rightarrow> string" where
  "py_str (StrV s) = s"
| "py_str (IntV i) = str_int i"
| "py_str NoneV = ''None''"

text \<open>The statement \<open>print v\<close>: the text of the value, then a newline.\<close>

definition print :: "pyval \<Rightarrow> pyval prog" where
  "print v s = (Inr NoneV, s\<lparr>stdout := stdout s @ py_str v @ ''\<newline>''\<rparr>)"

subsection \<open>The functions of the script\<close>

text \<open>
  \<^verbatim>\<open>handle = 0\<close>: the state in which the script starts, nothing written yet.
\<close>

definition init :: state where
  "init = \<lparr>handle = 0, stdout = []\<rparr>"

text \<open>
  \<^verbatim>\<open>def createNode(label):
    global handle
    variable = "x" + str(handle)
    handle = handle + 1
    return [variable, variable + " [label=\"" + label + "\",shape=circle]\n"]\<close>
  The counter is incremented before the fragment is built, so a label that is not a string
  raises after the increment. The returned Python list is a list of two values.
\<close>

definition createNode :: "pyval \<Rightarrow> (pyval list) prog" where
  \<open>createNode label s =
     (let variable = StrV (''x'' @ str_int (handle s));
          s' = s\<lparr>handle := handle s + 1\<rparr>
      in case add (add (add (Inr variable) (Inr (StrV '' [label="''))) (Inr label))
                  (Inr (StrV (''",shape=circle]\<newline>''))) of
           Inl e \<Rightarrow> (Inl e, s')
         | Inr fragment \<Rightarrow> (Inr [variable, fragment], s'))\<close>

text \<open>
  \<^verbatim>\<open>def createChild(parent, child, options = ""):
    return parent + " -> " + child + options + "\n"\<close>
  The optional third argument is \<open>None\<close> when the caller leaves it out.
\<close>

definition createChild :: "pyval \<Rightarrow> pyval \<Rightarrow> pyval option \<Rightarrow> pyval prog" where
  "createChild parent child opt s =
     (let options = (case opt of None \<Rightarrow> StrV [] | Some v \<Rightarrow> v)
      in (add (add (add (add (Inr parent) (Inr (StrV '' -> ''))) (Inr child)) (Inr options))
              (Inr (StrV ''\<newline>'')), s))"

text \<open>
  \<^verbatim>\<open>def createWrapper(code):
    return "strict digraph X {\n" + code + "}"\<close>
\<close>

definition createWrapper :: "pyval \<Rightarrow> pyval prog" where
  "createWrapper code s =
     (add (add (Inr (StrV ''strict digraph X {\<newline>'')) (Inr code)) (Inr (StrV ''}'')), s)"

text \<open>
  \<^verbatim>\<open>def simpleAST():
    minusNode = createNode("-")
    plusNode = createNode("+")
    oneNode = createNode("1")
    twoNode = createNode("2")
    threeNode = createNode("3")
    string = minusNode[1] + plusNode[1] + oneNode[1]
    string = string + twoNode[1] + threeNode[1]
    string = string + createChild(minusNode[0], oneNode[0])
    string = string + createChild(minusNode[0], twoNode[0])
    string = string + createChild(plusNode[0], minusNode[0])
    string = string + createChild(plusNode[0], threeNode[0])
    return string\<close>
  One line of the model for each statement of the first seven; each of the last four is
  two lines, the call (its arguments evaluated left to right) and the concatenation.
\<close>

definition simpleAST :: "pyval prog" where
  "simpleAST =
     bind (createNode (StrV ''-'')) (\<lambda>minusNode.
     bind (createNode (StrV ''+'')) (\<lambda>plusNode.
     bind (createNode (StrV ''1'')) (\<lambda>oneNode.
     bind (createNode (StrV ''2'')) (\<lambda>twoNode.
     bind (createNode (StrV ''3'')) (\<lambda>threeNode.
     bind (pure (add (add (index minusNode 1) (index plusNode 1)) (index oneNode 1))) (\<lambda>string.
     bind (pure (add (add (Inr string) (index twoNode 1)) (index threeNode 1))) (\<lambda>string.
     bind (bind (pure (index minusNode 0)) (\<lambda>parent. bind (pure (index oneNode 0)) (\<lambda>child.
             createChild parent child None))) (\<lambda>edge.
     bind (pure (add (Inr string) (Inr edge))) (\<lambda>string.
     bind (bind (pure (index minusNode 0)) (\<lambda>parent. bind (pure (index twoNode 0)) (\<lambda>child.
             createChild parent child None))) (\<lambda>edge.
     bind (pure (add (Inr string) (Inr edge))) (\<lambda>string.
     bind (bind (pure (index plusNode 0)) (\<lambda>parent. bind (pure (index minusNode 0)) (\<lambda>child.
             createChild parent child None))) (\<lambda>edge.
     bind (pure (add (Inr string) (Inr edge))) (\<lambda>string.
     bind (bind (pure (index plusNode 0)) (\<lambda>parent. bind (pure (index threeNode 0)) (\<lambda>child.
             createChild parent child None))) (\<lambda>edge.
     bind (pure (add (Inr string) (Inr edge))) (\<lambda>string.
     ret string)))))))))))))))"

text \<open>
  \<^verbatim>\<open>def getCode():
    print createWrapper(simpleAST())\<close>
\<close>

definition getCode :: "pyval prog" where
  "getCode = bind simpleAST (\<lambda>code. bind (createWrapper code) (\<lambda>doc. print doc))"

text \<open>The script itself: the definitions, then the call \<^verbatim>\<open>getCode()\<close> in the initial state.\<close>

definition main :: "pyval result \<times> state" where
  "main = getCode init"

subsection \<open>Runs of the module\<close>

text \<open>
  A caller of the module can call its five functions, in any order and with any
  arguments. A run is the list of these calls; a call that raises leaves the state it
  reached, and the caller may go on.
\<close>

datatype call =
    CreateNode pyval
  | CreateChild pyval pyval "pyval option"
  | CreateWrapper pyval
  | SimpleAST
  | GetCode

fun after :: "call \<Rightarrow> state \<Rightarrow> state" where
  "after (CreateNode label) s = snd (createNode label s)"
| "after (CreateChild parent child opt) s = snd (createChild parent child opt s)"
| "after (CreateWrapper code) s = snd (createWrapper code s)"
| "after SimpleAST s = snd (simpleAST s)"
| "after GetCode s = snd (getCode s)"

text \<open>The identifier a call of \<open>createNode\<close> hands to its caller: none when it raised.\<close>

fun returned_id :: "(pyval list) result \<Rightarrow> string list" where
  "returned_id (Inr (StrV v # _)) = [v]"
| "returned_id _ = []"

text \<open>
  The identifiers returned by consecutive calls of \<open>createNode\<close> with the given labels.
\<close>

fun created :: "pyval list \<Rightarrow> state \<Rightarrow> string list" where
  "created [] s = []"
| "created (label # labels) s =
     returned_id (fst (createNode label s)) @ created labels (snd (createNode label s))"

text \<open>
  The labels of the \<open>createNode\<close> calls that a call makes, in their order: its own for
  \<open>createNode\<close>, the five at the start of \<open>simpleAST\<close> (also when \<open>getCode\<close> calls it),
  none for the other two functions.
\<close>

definition simpleAST_labels :: "pyval list" where
  "simpleAST_labels = [StrV ''-'', StrV ''+'', StrV ''1'', StrV ''2'', StrV ''3'']"

fun createNode_calls :: "call \<Rightarrow> pyval list" where
  "createNode_calls (CreateNode label) = [label]"
| "createNode_calls SimpleAST = simpleAST_labels"
| "createNode_calls GetCode = simpleAST_labels"
| "createNode_calls _ = []"

text \<open>
  The identifiers returned by all \<open>createNode\<close> calls of a run, in the order of the calls.
\<close>

fun node_ids :: "call list \<Rightarrow> state \<Rightarrow> string list" where
  "node_ids [] s = []"
| "node_ids (c # cs) s = created (createNode_calls c) s @ node_ids cs (after c s)"

subsection \<open>Reading the text that was built\<close>

text \<open>
  The claims about the output speak of its lines, of node declarations and of the two
  ends of an edge. These functions read them off a text: they are the vocabulary of the
  statements below, not part of the script.
\<close>

text \<open>The lines of a text, as Python's \<open>splitlines\<close> gives them (newlines removed).\<close>

fun splitlines :: "string \<Rightarrow> string list" where
  "splitlines [] = []"
| "splitlines (c # cs) =
     (if c = CHR ''\<newline>'' then [] # splitlines cs
      else (case splitlines cs of [] \<Rightarrow> [[c]] | l # ls \<Rightarrow> (c # l) # ls))"

text \<open>The text before and after the first occurrence of a separator, if there is one.\<close>

fun partition_at :: "string \<Rightarrow> string \<Rightarrow> (string \<times> string) option" where
  "partition_at sep [] = (if sep = [] then Some ([], []) else None)"
| "partition_at sep (c # cs) =
     (if prefix sep (c # cs) then Some ([], drop (length sep) (c # cs))
      else map_option (\<lambda>(a, b). (c # a, b)) (partition_at sep cs))"

text \<open>An edge line \<open>source -> target\<close>: its source and its target.\<close>

definition edge_ends :: "string \<Rightarrow> (string \<times> string) option" where
  "edge_ends l = partition_at '' -> '' l"

text \<open>A node declaration \<open>identifier [label="label",shape=circle]\<close>: its identifier and label.\<close>

definition node_decl :: "string \<Rightarrow> (string \<times> string) option" where
  \<open>node_decl l =
     (case partition_at '' [label="'' l of
        None \<Rightarrow> None
      | Some (i, rest) \<Rightarrow>
          if suffix ''",shape=circle]'' rest
          then Some (i, take (length rest - 15) rest) else None)\<close>

datatype line_kind = NodeLine | EdgeLine | OtherLine

definition kind_of :: "string \<Rightarrow> line_kind" where
  "kind_of l = (if node_decl l \<noteq> None then NodeLine
                else if edge_ends l \<noteq> None then EdgeLine else OtherLine)"

text \<open>The identifiers that the node declarations of a text declare.\<close>

definition declared :: "string \<Rightarrow> string list" where
  "declared t = concat (map (\<lambda>l. case node_decl l of None \<Rightarrow> [] | Some (i, _) \<Rightarrow> [i]) (splitlines t))"

text \<open>The text a function returned; empty when it raised or returned something else.\<close>

fun text_of :: "pyval result \<Rightarrow> string" where
  "text_of (Inr (StrV t)) = t"
| "text_of _ = []"

text \<open>
  The text between header and footer in section 6 of the specification, with the number
  of every identifier offset by \<open>k\<close>: five node declarations, then four edges.
\<close>

definition example_text :: "int \<Rightarrow> string" where
  \<open>example_text k =
     ''x'' @ str_int (k + 0) @ '' [label="-",shape=circle]\<newline>'' @
     ''x'' @ str_int (k + 1) @ '' [label="+",shape=circle]\<newline>'' @
     ''x'' @ str_int (k + 2) @ '' [label="1",shape=circle]\<newline>'' @
     ''x'' @ str_int (k + 3) @ '' [label="2",shape=circle]\<newline>'' @
     ''x'' @ str_int (k + 4) @ '' [label="3",shape=circle]\<newline>'' @
     ''x'' @ str_int (k + 0) @ '' -> '' @ ''x'' @ str_int (k + 2) @ ''\<newline>'' @
     ''x'' @ str_int (k + 0) @ '' -> '' @ ''x'' @ str_int (k + 3) @ ''\<newline>'' @
     ''x'' @ str_int (k + 1) @ '' -> '' @ ''x'' @ str_int (k + 0) @ ''\<newline>'' @
     ''x'' @ str_int (k + 1) @ '' -> '' @ ''x'' @ str_int (k + 4) @ ''\<newline>''\<close>

section \<open>Properties\<close>

subsection \<open>Decimal rendering\<close>

lemma digit_char_inj: "a < 10 \<Longrightarrow> b < 10 \<Longrightarrow> digit_char a = digit_char b \<longleftrightarrow> a = b"
proof -
  assume "a < 10" "b < 10"
  then have "a \<in> {0, 1, 2, 3, 4, 5, 6, 7, 8, 9}" "b \<in> {0, 1, 2, 3, 4, 5, 6, 7, 8, 9}"
    by auto
  then show ?thesis unfolding digit_char_def by auto
qed

lemma digit_char_in: "d < 10 \<Longrightarrow> digit_char d \<in> set ''0123456789''"
  unfolding digit_char_def by (rule nth_mem) simp

lemma str_nat_nonempty: "str_nat n \<noteq> []"
  by (subst str_nat.simps) simp

lemma str_nat_inj: "str_nat a = str_nat b \<Longrightarrow> a = b"
proof (induction a arbitrary: b rule: str_nat.induct)
  case (1 n)
  note eq = \<open>str_nat n = str_nat b\<close>
  show ?case
  proof (cases "n < 10")
    case small: True
    show ?thesis
    proof (cases "b < 10")
      case True
      with eq small have "digit_char n = digit_char b"
        by (simp add: str_nat.simps[of n] str_nat.simps[of b])
      with small True show ?thesis by (simp add: digit_char_inj)
    next
      case False
      with eq small have "[digit_char n] = str_nat (b div 10) @ [digit_char (b mod 10)]"
        by (simp add: str_nat.simps[of n] str_nat.simps[of b])
      with str_nat_nonempty[of "b div 10"] show ?thesis by auto
    qed
  next
    case big: False
    show ?thesis
    proof (cases "b < 10")
      case True
      with eq big have "str_nat (n div 10) @ [digit_char (n mod 10)] = [digit_char b]"
        by (simp add: str_nat.simps[of n] str_nat.simps[of b])
      with str_nat_nonempty[of "n div 10"] show ?thesis by auto
    next
      case False
      with eq big have
        "str_nat (n div 10) @ [digit_char (n mod 10)] = str_nat (b div 10) @ [digit_char (b mod 10)]"
        by (simp add: str_nat.simps[of n] str_nat.simps[of b])
      then have q: "str_nat (n div 10) = str_nat (b div 10)"
        and r: "digit_char (n mod 10) = digit_char (b mod 10)" by simp_all
      from "1.IH"[OF big q] have "n div 10 = b div 10" .
      moreover from r have "n mod 10 = b mod 10" by (simp add: digit_char_inj)
      ultimately show ?thesis by (metis div_mult_mod_eq)
    qed
  qed
qed

lemma str_nat_chars: "set (str_nat n) \<subseteq> set ''0123456789''"
proof (induction n rule: str_nat.induct)
  case (1 n)
  show ?case
  proof (cases "n < 10")
    case True
    then show ?thesis using digit_char_in[of n] by (subst str_nat.simps) simp
  next
    case False
    have "n mod 10 < 10" by simp
    from digit_char_in[OF this] 1[OF False] False show ?thesis
      by (subst str_nat.simps) simp
  qed
qed

lemma str_nat_avoids: "c \<notin> set ''0123456789'' \<Longrightarrow> c \<notin> set (str_nat n)"
  using str_nat_chars[of n] by blast

lemma str_int_avoids:
  assumes "c \<noteq> CHR ''-''" and "c \<notin> set ''0123456789''"
  shows "c \<notin> set (str_int i)"
proof (cases "i < 0")
  case True
  then have "str_int i = CHR ''-'' # str_nat (nat (- i))" by (simp add: str_int_def)
  with assms str_nat_avoids[OF assms(2), of "nat (- i)"] show ?thesis by simp
next
  case False
  then have "str_int i = str_nat (nat i)" by (simp add: str_int_def)
  with str_nat_avoids[OF assms(2), of "nat i"] show ?thesis by simp
qed

lemma str_int_no_newline: "CHR ''\<newline>'' \<notin> set (str_int i)"
  by (rule str_int_avoids) simp_all

lemma str_int_no_space: "CHR '' '' \<notin> set (str_int i)"
  by (rule str_int_avoids) simp_all

lemma str_int_inj: "str_int a = str_int b \<Longrightarrow> a = b"
proof -
  assume eq: "str_int a = str_int b"
  have nominus: "\<And>n. hd (str_nat n) \<noteq> CHR ''-''"
  proof -
    fix n
    have "hd (str_nat n) \<in> set (str_nat n)" by (simp add: str_nat_nonempty)
    moreover have "CHR ''-'' \<notin> set (str_nat n)" by (rule str_nat_avoids) simp
    ultimately show "hd (str_nat n) \<noteq> CHR ''-''" by metis
  qed
  show ?thesis
  proof (cases "a < 0")
    case an: True
    show ?thesis
    proof (cases "b < 0")
      case True
      with eq an have "str_nat (nat (- a)) = str_nat (nat (- b))" by (simp add: str_int_def)
      then have "nat (- a) = nat (- b)" by (rule str_nat_inj)
      with an True show ?thesis by simp
    next
      case False
      with eq an have "CHR ''-'' # str_nat (nat (- a)) = str_nat (nat b)"
        by (simp add: str_int_def)
      then have "hd (str_nat (nat b)) = CHR ''-''" by (metis list.sel(1))
      with nominus show ?thesis by blast
    qed
  next
    case ap: False
    show ?thesis
    proof (cases "b < 0")
      case True
      with eq ap have "str_nat (nat a) = CHR ''-'' # str_nat (nat (- b))"
        by (simp add: str_int_def)
      then have "hd (str_nat (nat a)) = CHR ''-''" by (metis list.sel(1))
      with nominus show ?thesis by blast
    next
      case False
      with eq ap have "str_nat (nat a) = str_nat (nat b)" by (simp add: str_int_def)
      then have "nat a = nat b" by (rule str_nat_inj)
      with ap False show ?thesis by simp
    qed
  qed
qed

subsection \<open>The functions on strings\<close>

lemma createNode_str:
  \<open>createNode (StrV label) s =
     (Inr [StrV (''x'' @ str_int (handle s)),
           StrV (''x'' @ str_int (handle s) @ '' [label="'' @ label @ ''",shape=circle]\<newline>'')],
      s\<lparr>handle := handle s + 1\<rparr>)\<close>
  by (simp add: createNode_def)

lemma createChild_str:
  "createChild (StrV p) (StrV c) None s = (Inr (StrV (p @ '' -> '' @ c @ ''\<newline>'')), s)"
  by (simp add: createChild_def)

lemma index_pair: "index [a, b] 0 = Inr a" "index [a, b] 1 = Inr b"
  by (simp_all add: index_def)

lemma simpleAST_eq: "simpleAST s = (Inr (StrV (example_text (handle s))), s\<lparr>handle := handle s + 5\<rparr>)"
  by (simp add: simpleAST_def bind_def pure_def ret_def createNode_str createChild_str
      index_pair example_text_def add.commute)

subsection \<open>Lines, node declarations and edges\<close>

lemma splitlines_line:
  "CHR ''\<newline>'' \<notin> set a \<Longrightarrow> splitlines (a @ CHR ''\<newline>'' # r) = a # splitlines r"
  by (induction a) auto

lemma splitlines_unlines:
  "\<forall>l\<in>set ls. CHR ''\<newline>'' \<notin> set l \<Longrightarrow>
   splitlines (concat (map (\<lambda>l. l @ ''\<newline>'') ls)) = ls"
  by (induction ls) (simp_all add: splitlines_line)

lemma partition_at_skip:
  "c \<notin> set a \<Longrightarrow> partition_at (c # sep) (a @ b) =
     map_option (\<lambda>(p, q). (a @ p, q)) (partition_at (c # sep) b)"
proof (induction a)
  case Nil
  show ?case by (cases "partition_at (c # sep) b") auto
next
  case (Cons x a)
  then show ?case by (cases "partition_at (c # sep) b") auto
qed

lemma partition_at_none: "c \<notin> set a \<Longrightarrow> partition_at (c # sep) a = None"
  by (induction a) auto

lemma splitlines_Cons_length: "length (splitlines cs) \<le> length (splitlines (c # cs))"
  by (cases "splitlines cs") simp_all

lemma splitlines_through_newline:
  "Suc (length (splitlines r)) \<le> length (splitlines (a @ CHR ''\<newline>'' # r))"
proof (induction a)
  case Nil
  show ?case by simp
next
  case (Cons c a)
  from Cons splitlines_Cons_length[of "a @ CHR ''\<newline>'' # r" c] show ?case
    by (simp del: splitlines.simps)
qed

lemma splitlines_terminated_nonempty: "splitlines (t @ ''\<newline>'') \<noteq> []"
proof (induction t)
  case Nil
  show ?case by simp
next
  case (Cons c t)
  then show ?case by (cases "splitlines (t @ ''\<newline>'')") simp_all
qed

lemma splitlines_inner_newline:
  assumes "CHR ''\<newline>'' \<in> set t"
  shows "2 \<le> length (splitlines (t @ ''\<newline>''))"
proof -
  from assms obtain a b where t: "t = a @ CHR ''\<newline>'' # b" by (meson split_list)
  have "1 \<le> length (splitlines (b @ ''\<newline>''))"
    using splitlines_terminated_nonempty[of b] by (cases "splitlines (b @ ''\<newline>'')") simp_all
  with splitlines_through_newline[of "b @ ''\<newline>''" a] show ?thesis
    unfolding t by simp
qed

lemma splitlines_one_line:
  "CHR ''\<newline>'' \<notin> set t \<Longrightarrow> splitlines (t @ ''\<newline>'') = [t]"
  using splitlines_line[of t "[]"] by simp

lemma example_text_lines:
  \<open>splitlines (example_text k) =
    [''x'' @ str_int (k + 0) @ '' [label="'' @ ''-'' @ ''",shape=circle]'',
     ''x'' @ str_int (k + 1) @ '' [label="'' @ ''+'' @ ''",shape=circle]'',
     ''x'' @ str_int (k + 2) @ '' [label="'' @ ''1'' @ ''",shape=circle]'',
     ''x'' @ str_int (k + 3) @ '' [label="'' @ ''2'' @ ''",shape=circle]'',
     ''x'' @ str_int (k + 4) @ '' [label="'' @ ''3'' @ ''",shape=circle]'',
     ''x'' @ str_int (k + 0) @ '' -> '' @ ''x'' @ str_int (k + 2),
     ''x'' @ str_int (k + 0) @ '' -> '' @ ''x'' @ str_int (k + 3),
     ''x'' @ str_int (k + 1) @ '' -> '' @ ''x'' @ str_int (k + 0),
     ''x'' @ str_int (k + 1) @ '' -> '' @ ''x'' @ str_int (k + 4)]\<close>
  (is "_ = ?ls")
proof -
  have "example_text k = concat (map (\<lambda>l. l @ ''\<newline>'') ?ls)"
    by (simp add: example_text_def)
  moreover have "splitlines (concat (map (\<lambda>l. l @ ''\<newline>'') ?ls)) = ?ls"
    by (rule splitlines_unlines) (simp add: str_int_no_newline)
  ultimately show ?thesis by simp
qed

lemma example_text_nodes:
  "map node_decl (splitlines (example_text k)) =
     [Some (''x'' @ str_int (k + 0), ''-''), Some (''x'' @ str_int (k + 1), ''+''),
      Some (''x'' @ str_int (k + 2), ''1''), Some (''x'' @ str_int (k + 3), ''2''),
      Some (''x'' @ str_int (k + 4), ''3''), None, None, None, None]"
  unfolding example_text_lines
  by (simp add: node_decl_def partition_at_skip partition_at_none str_int_no_space suffix_def)

lemma example_text_edges:
  "map edge_ends (splitlines (example_text k)) =
     [None, None, None, None, None,
      Some (''x'' @ str_int (k + 0), ''x'' @ str_int (k + 2)),
      Some (''x'' @ str_int (k + 0), ''x'' @ str_int (k + 3)),
      Some (''x'' @ str_int (k + 1), ''x'' @ str_int (k + 0)),
      Some (''x'' @ str_int (k + 1), ''x'' @ str_int (k + 4))]"
  unfolding example_text_lines
  by (simp add: edge_ends_def partition_at_skip partition_at_none str_int_no_space)

lemma example_text_kinds:
  "map kind_of (splitlines (example_text k)) =
     [NodeLine, NodeLine, NodeLine, NodeLine, NodeLine, EdgeLine, EdgeLine, EdgeLine, EdgeLine]"
proof -
  have "map kind_of (splitlines (example_text k)) =
    map (\<lambda>(n, e). if n \<noteq> None then NodeLine else if e \<noteq> None then EdgeLine else OtherLine)
      (zip (map node_decl (splitlines (example_text k))) (map edge_ends (splitlines (example_text k))))"
    by (simp add: zip_map_map kind_of_def zip_same_conv_map comp_def)
  then show ?thesis unfolding example_text_nodes example_text_edges by simp
qed

lemma example_text_declared:
  "declared (example_text k) =
     [''x'' @ str_int (k + 0), ''x'' @ str_int (k + 1), ''x'' @ str_int (k + 2),
      ''x'' @ str_int (k + 3), ''x'' @ str_int (k + 4)]"
proof -
  have "declared (example_text k) =
    concat (map (\<lambda>d. case d of None \<Rightarrow> [] | Some (i, _) \<Rightarrow> [i])
      (map node_decl (splitlines (example_text k))))"
    by (simp add: declared_def comp_def)
  then show ?thesis unfolding example_text_nodes by simp
qed

subsection \<open>The counter along a run\<close>

lemma str_int_digits:
  "str_int 0 = ''0''" "str_int 1 = ''1''" "str_int 2 = ''2''" "str_int 3 = ''3''"
  "str_int 4 = ''4''" "str_int 5 = ''5''" "str_int 6 = ''6''" "str_int 7 = ''7''"
  "str_int 8 = ''8''" "str_int 9 = ''9''"
  by (simp_all add: str_int_def str_nat.simps digit_char_def)

lemma handle_createNode: "handle (snd (createNode label s)) = handle s + 1"
  by (simp add: createNode_def Let_def split: sum.splits)

lemma returned_id_createNode:
  "returned_id (fst (createNode label s)) = [] \<or>
   returned_id (fst (createNode label s)) = [''x'' @ str_int (handle s)]"
  by (simp add: createNode_def Let_def split: sum.splits)

lemma handle_after:
  "handle (after c s) = handle s + int (length (createNode_calls c))"
  by (cases c)
    (simp_all add: handle_createNode createChild_def createWrapper_def Let_def simpleAST_eq
      getCode_def bind_def print_def simpleAST_labels_def)

lemma created_numbers:
  "v \<in> set (created labels s) \<Longrightarrow>
   \<exists>k. handle s \<le> k \<and> k < handle s + int (length labels) \<and> v = ''x'' @ str_int k"
proof (induction labels arbitrary: s)
  case Nil
  then show ?case by simp
next
  case (Cons label labels)
  show ?case
  proof (cases "v \<in> set (created labels (snd (createNode label s)))")
    case True
    from Cons.IH[OF True] obtain k where "handle (snd (createNode label s)) \<le> k"
      and "k < handle (snd (createNode label s)) + int (length labels)"
      and "v = ''x'' @ str_int k"
      by blast
    then show ?thesis by (intro exI[of _ k]) (simp add: handle_createNode)
  next
    case False
    with Cons.prems have "v \<in> set (returned_id (fst (createNode label s)))" by simp
    with returned_id_createNode[of label s] have "v = ''x'' @ str_int (handle s)" by auto
    then show ?thesis by (intro exI[of _ "handle s"]) simp
  qed
qed

lemma created_distinct: "distinct (created labels s)"
proof (induction labels arbitrary: s)
  case Nil
  show ?case by simp
next
  case (Cons label labels)
  have "''x'' @ str_int (handle s) \<notin> set (created labels (snd (createNode label s)))"
  proof
    assume "''x'' @ str_int (handle s) \<in> set (created labels (snd (createNode label s)))"
    from created_numbers[OF this] obtain k
      where k: "handle (snd (createNode label s)) \<le> k"
        and "''x'' @ str_int (handle s) = ''x'' @ str_int k"
      by blast
    then have "str_int (handle s) = str_int k" by simp
    then have "handle s = k" by (rule str_int_inj)
    with k show False by (simp add: handle_createNode)
  qed
  with returned_id_createNode[of label s] Cons.IH[of "snd (createNode label s)"]
  show ?case by auto
qed

lemma node_ids_numbers:
  "v \<in> set (node_ids cs s) \<Longrightarrow> \<exists>k. handle s \<le> k \<and> v = ''x'' @ str_int k"
proof (induction cs arbitrary: s)
  case Nil
  then show ?case by simp
next
  case (Cons c cs)
  show ?case
  proof (cases "v \<in> set (node_ids cs (after c s))")
    case True
    from Cons.IH[OF True] obtain k where "handle (after c s) \<le> k" "v = ''x'' @ str_int k"
      by blast
    then show ?thesis by (intro exI[of _ k]) (simp add: handle_after)
  next
    case False
    with Cons.prems have "v \<in> set (created (createNode_calls c) s)" by simp
    from created_numbers[OF this] show ?thesis by blast
  qed
qed

lemma created_simpleAST_labels:
  "created simpleAST_labels s =
     [''x'' @ str_int (handle s + 0), ''x'' @ str_int (handle s + 1), ''x'' @ str_int (handle s + 2),
      ''x'' @ str_int (handle s + 3), ''x'' @ str_int (handle s + 4)]"
  by (simp add: simpleAST_labels_def createNode_str add.commute)

lemma fragment_of_createNode:
  \<open>text_of (fst (bind (createNode (StrV label)) (\<lambda>node. pure (index node 1)) s)) =
     (''x'' @ str_int (handle s) @ '' [label="'' @ label @ ''",shape=circle]'') @ ''\<newline>''\<close>
  by (simp add: bind_def pure_def createNode_str index_pair)

lemma not_an_identifier: "''nowhere'' \<notin> set (node_ids cs s)"
proof
  assume "''nowhere'' \<in> set (node_ids cs s)"
  from node_ids_numbers[OF this] show False by auto
qed

text \<open>
  Arguments that are not strings do raise, so the error branch of the model is reachable:
  \<open>createNode\<close> raises only after it has incremented the counter.
\<close>

lemma createNode_not_string:
  "createNode (IntV n) s = (Inl TypeError, s\<lparr>handle := handle s + 1\<rparr>)"
  "createNode NoneV s = (Inl TypeError, s\<lparr>handle := handle s + 1\<rparr>)"
  by (simp_all add: createNode_def)

section \<open>The claims\<close>

text \<open>
  C1 (as amended). Run from the initial state, where the counter is 0, the script writes
  to standard output the document of section 6 of the specification, from
  \<open>strict digraph X {\<close> to the closing brace, followed by the single newline that the
  \<open>print\<close> statement appends, and nothing else; the counter is then 5.
\<close>

theorem getCode_prints_document_and_newline:
  \<open>main = (Inr NoneV,
     \<lparr>handle = 5,
      stdout =
        ''strict digraph X {\<newline>'' @
        ''x0 [label="-",shape=circle]\<newline>'' @
        ''x1 [label="+",shape=circle]\<newline>'' @
        ''x2 [label="1",shape=circle]\<newline>'' @
        ''x3 [label="2",shape=circle]\<newline>'' @
        ''x4 [label="3",shape=circle]\<newline>'' @
        ''x0 -> x2\<newline>'' @
        ''x0 -> x3\<newline>'' @
        ''x1 -> x0\<newline>'' @
        ''x1 -> x4\<newline>'' @
        ''}'' @ ''\<newline>''\<rparr>)\<close>
  by (simp add: main_def getCode_def bind_def simpleAST_eq createWrapper_def print_def
      init_def example_text_def str_int_digits)

text \<open>
  C1, as stated: the output is not the bare document that ends with the closing brace.
\<close>

theorem stdout_is_not_the_bare_document:
  \<open>stdout (snd main) \<noteq>
        ''strict digraph X {\<newline>'' @
        ''x0 [label="-",shape=circle]\<newline>'' @
        ''x1 [label="+",shape=circle]\<newline>'' @
        ''x2 [label="1",shape=circle]\<newline>'' @
        ''x3 [label="2",shape=circle]\<newline>'' @
        ''x4 [label="3",shape=circle]\<newline>'' @
        ''x0 -> x2\<newline>'' @
        ''x0 -> x3\<newline>'' @
        ''x1 -> x0\<newline>'' @
        ''x1 -> x4\<newline>'' @
        ''}''\<close>
  by (simp add: main_def getCode_def bind_def simpleAST_eq createWrapper_def print_def
      init_def example_text_def str_int_digits)

text \<open>
  C2. \<open>simpleAST\<close> makes five calls of \<open>createNode\<close>, with the labels \<open>-\<close>, \<open>+\<close>,
  \<open>1\<close>, \<open>2\<close>, \<open>3\<close> in this order, and returns the concatenation of nine fragments: the
  five declarations these calls returned, in the order of the calls, then the results of
  \<open>createChild\<close> for (minus, one), (minus, two), (plus, minus) and (plus, three). The text
  has nine lines: five node declarations with these labels, then four edges.
\<close>

theorem simpleAST_nine_fragments:
  \<open>let minus = ''x'' @ str_int (handle s);
       plus = ''x'' @ str_int (handle s + 1);
       one = ''x'' @ str_int (handle s + 2);
       two = ''x'' @ str_int (handle s + 3);
       three = ''x'' @ str_int (handle s + 4);
       d1 = minus @ '' [label="-",shape=circle]\<newline>'';
       d2 = plus @ '' [label="+",shape=circle]\<newline>'';
       d3 = one @ '' [label="1",shape=circle]\<newline>'';
       d4 = two @ '' [label="2",shape=circle]\<newline>'';
       d5 = three @ '' [label="3",shape=circle]\<newline>'';
       e1 = minus @ '' -> '' @ one @ ''\<newline>'';
       e2 = minus @ '' -> '' @ two @ ''\<newline>'';
       e3 = plus @ '' -> '' @ minus @ ''\<newline>'';
       e4 = plus @ '' -> '' @ three @ ''\<newline>'';
       s1 = s\<lparr>handle := handle s + 1\<rparr>;
       s2 = s\<lparr>handle := handle s + 2\<rparr>;
       s3 = s\<lparr>handle := handle s + 3\<rparr>;
       s4 = s\<lparr>handle := handle s + 4\<rparr>;
       s5 = s\<lparr>handle := handle s + 5\<rparr>;
       result = concat [d1, d2, d3, d4, d5, e1, e2, e3, e4]
   in createNode (StrV ''-'') s = (Inr [StrV minus, StrV d1], s1)
    \<and> createNode (StrV ''+'') s1 = (Inr [StrV plus, StrV d2], s2)
    \<and> createNode (StrV ''1'') s2 = (Inr [StrV one, StrV d3], s3)
    \<and> createNode (StrV ''2'') s3 = (Inr [StrV two, StrV d4], s4)
    \<and> createNode (StrV ''3'') s4 = (Inr [StrV three, StrV d5], s5)
    \<and> createChild (StrV minus) (StrV one) None s5 = (Inr (StrV e1), s5)
    \<and> createChild (StrV minus) (StrV two) None s5 = (Inr (StrV e2), s5)
    \<and> createChild (StrV plus) (StrV minus) None s5 = (Inr (StrV e3), s5)
    \<and> createChild (StrV plus) (StrV three) None s5 = (Inr (StrV e4), s5)
    \<and> simpleAST s = (Inr (StrV result), s5)
    \<and> splitlines result =
        [butlast d1, butlast d2, butlast d3, butlast d4, butlast d5,
         butlast e1, butlast e2, butlast e3, butlast e4]
    \<and> map node_decl (splitlines result) =
        [Some (minus, ''-''), Some (plus, ''+''), Some (one, ''1''), Some (two, ''2''),
         Some (three, ''3''), None, None, None, None]
    \<and> map kind_of (splitlines result) =
        [NodeLine, NodeLine, NodeLine, NodeLine, NodeLine,
         EdgeLine, EdgeLine, EdgeLine, EdgeLine]\<close>
proof -
  have r: "simpleAST s = (Inr (StrV (example_text (handle s))), s\<lparr>handle := handle s + 5\<rparr>)"
    by (rule simpleAST_eq)
  show ?thesis
    using r example_text_lines[of "handle s"] example_text_nodes[of "handle s"]
      example_text_kinds[of "handle s"]
    by (simp add: Let_def createNode_str createChild_str example_text_def butlast_append)
qed

text \<open>
  C3 (as amended). For every string label and every counter value, \<open>createNode\<close> returns
  the identifier \<open>x\<close> followed by the decimal counter value read before the increment,
  and the fragment made of that identifier, \<open> [label="\<close>, the label, \<open>",shape=circle]\<close>
  and a newline; it leaves the counter one higher. The fragment (\<open>createNode(label)[1]\<close>)
  is that one line when the label has no newline in it, and two lines or more when it
  has. With the label \<open>foo\<close> the fragment contains \<open>label="foo"\<close> and \<open>shape=circle\<close>.
\<close>

theorem createNode_identifier_and_fragment:
  \<open>createNode (StrV label) s =
     (Inr [StrV (''x'' @ str_int (handle s)),
           StrV ((''x'' @ str_int (handle s)) @ '' [label="'' @ label @ ''",shape=circle]'' @ ''\<newline>'')],
      s\<lparr>handle := handle s + 1\<rparr>)
   \<and> createNode (StrV ''foo'') \<lparr>handle = 41, stdout = out\<rparr> =
     (Inr [StrV ''x41'', StrV ''x41 [label="foo",shape=circle]\<newline>''], \<lparr>handle = 42, stdout = out\<rparr>)
   \<and> (\<exists>variable fragment.
         fst (createNode (StrV ''foo'') s) = Inr [variable, StrV fragment] \<and>
         sublist ''label="foo"'' fragment \<and> sublist ''shape=circle'' fragment)
   \<and> (CHR ''\<newline>'' \<notin> set label \<longrightarrow>
         splitlines (text_of (fst (bind (createNode (StrV label)) (\<lambda>node. pure (index node 1)) s))) =
           [(''x'' @ str_int (handle s)) @ '' [label="'' @ label @ ''",shape=circle]''])
   \<and> (CHR ''\<newline>'' \<in> set label \<longrightarrow>
         2 \<le> length (splitlines
           (text_of (fst (bind (createNode (StrV label)) (\<lambda>node. pure (index node 1)) s)))))\<close>
proof (intro conjI impI)
  show \<open>createNode (StrV label) s =
     (Inr [StrV (''x'' @ str_int (handle s)),
           StrV ((''x'' @ str_int (handle s)) @ '' [label="'' @ label @ ''",shape=circle]'' @ ''\<newline>'')],
      s\<lparr>handle := handle s + 1\<rparr>)\<close>
    by (simp add: createNode_def)
  show \<open>createNode (StrV ''foo'') \<lparr>handle = 41, stdout = out\<rparr> =
     (Inr [StrV ''x41'', StrV ''x41 [label="foo",shape=circle]\<newline>''], \<lparr>handle = 42, stdout = out\<rparr>)\<close>
    by (simp add: createNode_def str_int_def str_nat.simps digit_char_def)
  have a: \<open>sublist ''label="foo"'' ((''x'' @ str_int (handle s) @ '' ['') @ ''label="foo"'' @ '',shape=circle]\<newline>'')\<close>
    by (rule sublist_appendI)
  have b: \<open>sublist ''shape=circle'' ((''x'' @ str_int (handle s) @ '' [label="foo",'') @ ''shape=circle'' @ '']\<newline>'')\<close>
    by (rule sublist_appendI)
  from a b show \<open>\<exists>variable fragment.
         fst (createNode (StrV ''foo'') s) = Inr [variable, StrV fragment] \<and>
         sublist ''label="foo"'' fragment \<and> sublist ''shape=circle'' fragment\<close>
    by (simp add: createNode_def)
next
  assume "CHR ''\<newline>'' \<notin> set label"
  then have \<open>CHR ''\<newline>'' \<notin> set (''x'' @ str_int (handle s) @ '' [label="'' @ label @ ''",shape=circle]'')\<close>
    by (simp add: str_int_no_newline)
  from splitlines_one_line[OF this]
  show \<open>splitlines (text_of (fst (bind (createNode (StrV label)) (\<lambda>node. pure (index node 1)) s))) =
           [(''x'' @ str_int (handle s)) @ '' [label="'' @ label @ ''",shape=circle]'']\<close>
    unfolding fragment_of_createNode by simp
next
  assume "CHR ''\<newline>'' \<in> set label"
  then have \<open>CHR ''\<newline>'' \<in> set (''x'' @ str_int (handle s) @ '' [label="'' @ label @ ''",shape=circle]'')\<close>
    by simp
  from splitlines_inner_newline[OF this]
  show \<open>2 \<le> length (splitlines
           (text_of (fst (bind (createNode (StrV label)) (\<lambda>node. pure (index node 1)) s))))\<close>
    unfolding fragment_of_createNode .
qed

text \<open>
  The two cases of the statement in the initial state: the label \<open>foo\<close>, and a label with
  a newline in it.
\<close>

theorem createNode_identifier_and_fragment_witness:
  \<open>CHR ''\<newline>'' \<notin> set ''foo''
   \<and> splitlines (text_of (fst (bind (createNode (StrV ''foo'')) (\<lambda>node. pure (index node 1)) init))) =
        [''x0 [label="foo",shape=circle]'']
   \<and> CHR ''\<newline>'' \<in> set ''a\<newline>b''
   \<and> 2 \<le> length (splitlines
        (text_of (fst (bind (createNode (StrV ''a\<newline>b'')) (\<lambda>node. pure (index node 1)) init))))\<close>
  using createNode_identifier_and_fragment[of "''foo''" init]
    createNode_identifier_and_fragment[of "''a\<newline>b''" init]
  by (simp add: init_def str_int_digits)

text \<open>
  C3, as stated: with a newline between \<open>a\<close> and \<open>b\<close> in the label, the fragment is not
  one line but two.
\<close>

theorem createNode_fragment_two_lines:
  \<open>createNode (StrV ''a\<newline>b'') init =
     (Inr [StrV ''x0'', StrV ''x0 [label="a\<newline>b",shape=circle]\<newline>''], \<lparr>handle = 1, stdout = []\<rparr>)
   \<and> splitlines ''x0 [label="a\<newline>b",shape=circle]\<newline>'' = [''x0 [label="a'', ''b",shape=circle]'']
   \<and> splitlines (text_of (fst (bind (createNode (StrV ''a\<newline>b'')) (\<lambda>node. pure (index node 1)) init))) =
        [''x0 [label="a'', ''b",shape=circle]'']
   \<and> length (splitlines
        (text_of (fst (bind (createNode (StrV ''a\<newline>b'')) (\<lambda>node. pure (index node 1)) init)))) = 2\<close>
  by (simp add: bind_def pure_def createNode_str index_pair init_def str_int_digits)

text \<open>
  C4. For every string, \<open>createWrapper\<close> returns the header, the string and one closing
  brace, and nothing else: the result starts with the header, ends with the brace, and
  dropping the header and the last character gives the string back.
\<close>

theorem createWrapper_round_trip:
  "createWrapper (StrV body) s = (Inr (StrV (''strict digraph X {\<newline>'' @ body @ ''}'')), s)
   \<and> take (length ''strict digraph X {\<newline>'') (text_of (fst (createWrapper (StrV body) s))) = ''strict digraph X {\<newline>''
   \<and> butlast (drop (length ''strict digraph X {\<newline>'') (text_of (fst (createWrapper (StrV body) s)))) = body
   \<and> last (text_of (fst (createWrapper (StrV body) s))) = CHR ''}''
   \<and> length (text_of (fst (createWrapper (StrV body) s))) = length ''strict digraph X {\<newline>'' + length body + 1"
  by (simp add: createWrapper_def butlast_append)

text \<open>
  C5. For all strings, \<open>createChild\<close> returns the parent, \<open> -> \<close>, the child, the
  options as given and a newline; the options are empty when left out; and
  \<open>createChild("a", "b", " [style=dashed]")\<close> is \<open>a -> b [style=dashed]\<close> with a newline.
\<close>

theorem createChild_format:
  "createChild (StrV parent) (StrV child) (Some (StrV options)) s =
     (Inr (StrV (parent @ '' -> '' @ child @ options @ ''\<newline>'')), s)
   \<and> createChild (StrV parent) (StrV child) None s =
     (Inr (StrV (parent @ '' -> '' @ child @ '''' @ ''\<newline>'')), s)
   \<and> createChild (StrV ''a'') (StrV ''b'') (Some (StrV '' [style=dashed]'')) s =
     (Inr (StrV ''a -> b [style=dashed]\<newline>''), s)"
  by (simp add: createChild_def)

text \<open>
  C6. In every run of the module, from any state and with any arguments, the identifiers
  returned by the calls of \<open>createNode\<close>, those of the caller and those made inside
  \<open>simpleAST\<close>, are pairwise different: the counter starts at 0, every call adds to it
  exactly the number of \<open>createNode\<close> calls it makes, and so no call lowers or resets it.
\<close>

theorem identifiers_distinct:
  "distinct (node_ids cs s)
   \<and> handle init = 0
   \<and> handle (after c s) = handle s + int (length (createNode_calls c))"
proof (intro conjI)
  show "distinct (node_ids cs s)"
  proof (induction cs arbitrary: s)
    case Nil
    show ?case by simp
  next
    case (Cons c cs)
    have "set (created (createNode_calls c) s) \<inter> set (node_ids cs (after c s)) = {}"
    proof (rule ccontr)
      assume "set (created (createNode_calls c) s) \<inter> set (node_ids cs (after c s)) \<noteq> {}"
      then obtain v where here: "v \<in> set (created (createNode_calls c) s)"
        and later: "v \<in> set (node_ids cs (after c s))"
        by blast
      from created_numbers[OF here] obtain j
        where j: "j < handle s + int (length (createNode_calls c))" and vj: "v = ''x'' @ str_int j"
        by blast
      from node_ids_numbers[OF later] obtain k
        where k: "handle (after c s) \<le> k" and vk: "v = ''x'' @ str_int k"
        by blast
      from vj vk have "str_int j = str_int k" by simp
      then have "j = k" by (rule str_int_inj)
      with j k show False by (simp add: handle_after)
    qed
    with created_distinct[of "createNode_calls c" s] Cons.IH[of "after c s"]
    show ?case by simp
  qed
  show "handle init = 0" by (simp add: init_def)
  show "handle (after c s) = handle s + int (length (createNode_calls c))"
    by (rule handle_after)
qed

text \<open>
  C7. Two calls of \<open>simpleAST\<close> in a row return the same text up to the numbers of the
  identifiers: the second text has every number 5 higher, which is the counter value
  reached after the first call when the counter starts at 0 (\<open>x5\<close> to \<open>x9\<close> in place of
  \<open>x0\<close> to \<open>x4\<close>).
\<close>

theorem simpleAST_twice:
  \<open>simpleAST s = (Inr (StrV (example_text (handle s))), s\<lparr>handle := handle s + 5\<rparr>)
   \<and> simpleAST (snd (simpleAST s)) =
       (Inr (StrV (example_text (handle s + 5))), s\<lparr>handle := handle s + 10\<rparr>)
   \<and> handle (snd (simpleAST init)) = 5
   \<and> fst (simpleAST init) = Inr (StrV (example_text 0))
   \<and> fst (simpleAST (snd (simpleAST init))) =
       Inr (StrV (example_text (0 + handle (snd (simpleAST init)))))
   \<and> example_text 0 =
        ''x0 [label="-",shape=circle]\<newline>'' @
        ''x1 [label="+",shape=circle]\<newline>'' @
        ''x2 [label="1",shape=circle]\<newline>'' @
        ''x3 [label="2",shape=circle]\<newline>'' @
        ''x4 [label="3",shape=circle]\<newline>'' @
        ''x0 -> x2\<newline>'' @
        ''x0 -> x3\<newline>'' @
        ''x1 -> x0\<newline>'' @
        ''x1 -> x4\<newline>''
   \<and> example_text 5 =
        ''x5 [label="-",shape=circle]\<newline>'' @
        ''x6 [label="+",shape=circle]\<newline>'' @
        ''x7 [label="1",shape=circle]\<newline>'' @
        ''x8 [label="2",shape=circle]\<newline>'' @
        ''x9 [label="3",shape=circle]\<newline>'' @
        ''x5 -> x7\<newline>'' @
        ''x5 -> x8\<newline>'' @
        ''x6 -> x5\<newline>'' @
        ''x6 -> x9\<newline>''\<close>
proof (intro conjI)
  show "simpleAST s = (Inr (StrV (example_text (handle s))), s\<lparr>handle := handle s + 5\<rparr>)"
    by (rule simpleAST_eq)
  show "simpleAST (snd (simpleAST s)) =
       (Inr (StrV (example_text (handle s + 5))), s\<lparr>handle := handle s + 10\<rparr>)"
    by (simp add: simpleAST_eq)
  show "handle (snd (simpleAST init)) = 5" by (simp add: simpleAST_eq init_def)
  show "fst (simpleAST init) = Inr (StrV (example_text 0))" by (simp add: simpleAST_eq init_def)
  show "fst (simpleAST (snd (simpleAST init))) =
       Inr (StrV (example_text (0 + handle (snd (simpleAST init)))))"
    by (simp add: simpleAST_eq init_def)
  show \<open>example_text 0 =
        ''x0 [label="-",shape=circle]\<newline>'' @
        ''x1 [label="+",shape=circle]\<newline>'' @
        ''x2 [label="1",shape=circle]\<newline>'' @
        ''x3 [label="2",shape=circle]\<newline>'' @
        ''x4 [label="3",shape=circle]\<newline>'' @
        ''x0 -> x2\<newline>'' @
        ''x0 -> x3\<newline>'' @
        ''x1 -> x0\<newline>'' @
        ''x1 -> x4\<newline>''\<close>
    by (simp add: example_text_def str_int_digits)
  show \<open>example_text 5 =
        ''x5 [label="-",shape=circle]\<newline>'' @
        ''x6 [label="+",shape=circle]\<newline>'' @
        ''x7 [label="1",shape=circle]\<newline>'' @
        ''x8 [label="2",shape=circle]\<newline>'' @
        ''x9 [label="3",shape=circle]\<newline>'' @
        ''x5 -> x7\<newline>'' @
        ''x5 -> x8\<newline>'' @
        ''x6 -> x5\<newline>'' @
        ''x6 -> x9\<newline>''\<close>
    by (simp add: example_text_def str_int_digits)
qed

text \<open>
  C8. \<open>createChild\<close> and \<open>createWrapper\<close> leave the state (the counter and the output)
  as it was, for all arguments, and their result does not depend on the state.
\<close>

theorem createChild_createWrapper_pure:
  "snd (createChild parent child opt s) = s
   \<and> snd (createWrapper code s) = s
   \<and> fst (createChild parent child opt s) = fst (createChild parent child opt s')
   \<and> fst (createWrapper code s) = fst (createWrapper code s')"
  by (simp add: createChild_def createWrapper_def Let_def)

text \<open>
  C9. On strings no operation raises, in any state, and each one copies its arguments
  to its result as they are: \<open>createNode\<close> the label between the quotes of the
  declaration, \<open>createChild\<close> parent, child and options around the arrow,
  \<open>createWrapper\<close> the code between header and brace; \<open>simpleAST\<close> returns its text.
  So a label with a double quote in it goes into the declaration unescaped, and an edge
  is built between strings that no run of the module ever returns as identifiers.
\<close>

theorem operations_total_on_strings:
  \<open>createNode (StrV label) s =
     (Inr [StrV (''x'' @ str_int (handle s)),
           StrV (''x'' @ str_int (handle s) @ '' [label="'' @ label @ ''",shape=circle]\<newline>'')],
      s\<lparr>handle := handle s + 1\<rparr>)
   \<and> createChild (StrV parent) (StrV child) (Some (StrV options)) s =
       (Inr (StrV (parent @ '' -> '' @ child @ options @ ''\<newline>'')), s)
   \<and> createChild (StrV parent) (StrV child) None s =
       (Inr (StrV (parent @ '' -> '' @ child @ ''\<newline>'')), s)
   \<and> createWrapper (StrV code) s =
       (Inr (StrV (''strict digraph X {\<newline>'' @ code @ ''}'')), s)
   \<and> simpleAST s = (Inr (StrV (example_text (handle s))), s\<lparr>handle := handle s + 5\<rparr>)
   \<and> \<not> isl (fst (createNode (StrV label) s))
   \<and> \<not> isl (fst (createChild (StrV parent) (StrV child) (Some (StrV options)) s))
   \<and> \<not> isl (fst (createChild (StrV parent) (StrV child) None s))
   \<and> \<not> isl (fst (createWrapper (StrV code) s))
   \<and> \<not> isl (fst (simpleAST s))
   \<and> createNode (StrV (a @ ''"'' @ b)) s =
       (Inr [StrV (''x'' @ str_int (handle s)),
             StrV (''x'' @ str_int (handle s) @ '' [label="'' @ a @ ''"'' @ b @ ''",shape=circle]\<newline>'')],
        s\<lparr>handle := handle s + 1\<rparr>)
   \<and> createNode (StrV ''a"b'') \<lparr>handle = 0, stdout = out\<rparr> =
       (Inr [StrV ''x0'', StrV ''x0 [label="a"b",shape=circle]\<newline>''], \<lparr>handle = 1, stdout = out\<rparr>)
   \<and> createChild (StrV ''x7'') (StrV ''nowhere'') None \<lparr>handle = 0, stdout = out\<rparr> =
       (Inr (StrV ''x7 -> nowhere\<newline>''), \<lparr>handle = 0, stdout = out\<rparr>)
   \<and> ''nowhere'' \<notin> set (node_ids cs init)
   \<and> createChild (StrV ''nowhere'') (StrV ''nowhere'') None s =
       (Inr (StrV ''nowhere -> nowhere\<newline>''), s)\<close>
proof (intro conjI)
  show "''nowhere'' \<notin> set (node_ids cs init)" by (rule not_an_identifier)
  show "simpleAST s = (Inr (StrV (example_text (handle s))), s\<lparr>handle := handle s + 5\<rparr>)"
    by (rule simpleAST_eq)
  show "\<not> isl (fst (simpleAST s))" by (simp add: simpleAST_eq)
qed (simp_all add: createNode_def createChild_def createWrapper_def
      str_int_def str_nat.simps[of 0] digit_char_def)

text \<open>
  C10. \<open>simpleAST\<close> returns a text in every state, its edge lines are the last four, and
  both ends of every edge line of this text are identifiers returned by the five
  \<open>createNode\<close> calls of the same invocation; they are also among the identifiers that
  the node declarations of the text declare.
\<close>

theorem simpleAST_edges_between_created_nodes:
  "(\<exists>t. fst (simpleAST s) = Inr (StrV t))
   \<and> map edge_ends (splitlines (text_of (fst (simpleAST s)))) =
       [None, None, None, None, None,
        Some (''x'' @ str_int (handle s), ''x'' @ str_int (handle s + 2)),
        Some (''x'' @ str_int (handle s), ''x'' @ str_int (handle s + 3)),
        Some (''x'' @ str_int (handle s + 1), ''x'' @ str_int (handle s)),
        Some (''x'' @ str_int (handle s + 1), ''x'' @ str_int (handle s + 4))]
   \<and> (\<forall>l \<in> set (splitlines (text_of (fst (simpleAST s)))). \<forall>p q.
         edge_ends l = Some (p, q) \<longrightarrow>
           p \<in> set (created simpleAST_labels s)
         \<and> q \<in> set (created simpleAST_labels s)
         \<and> p \<in> set (declared (text_of (fst (simpleAST s))))
         \<and> q \<in> set (declared (text_of (fst (simpleAST s)))))"
proof (intro conjI ballI allI impI)
  let ?t = "text_of (fst (simpleAST s))"
  let ?ids = "created simpleAST_labels s"
  have t: "?t = example_text (handle s)" by (simp add: simpleAST_eq)
  show "\<exists>t. fst (simpleAST s) = Inr (StrV t)" by (simp add: simpleAST_eq)
  show "map edge_ends (splitlines ?t) =
       [None, None, None, None, None,
        Some (''x'' @ str_int (handle s), ''x'' @ str_int (handle s + 2)),
        Some (''x'' @ str_int (handle s), ''x'' @ str_int (handle s + 3)),
        Some (''x'' @ str_int (handle s + 1), ''x'' @ str_int (handle s)),
        Some (''x'' @ str_int (handle s + 1), ''x'' @ str_int (handle s + 4))]"
    unfolding t example_text_edges by simp
  fix l p q
  assume l: "l \<in> set (splitlines ?t)" and e: "edge_ends l = Some (p, q)"
  from l have "edge_ends l \<in> set (map edge_ends (splitlines (example_text (handle s))))"
    unfolding t by simp
  with e have pq: "(p, q) \<in> {(''x'' @ str_int (handle s), ''x'' @ str_int (handle s + 2)),
        (''x'' @ str_int (handle s), ''x'' @ str_int (handle s + 3)),
        (''x'' @ str_int (handle s + 1), ''x'' @ str_int (handle s)),
        (''x'' @ str_int (handle s + 1), ''x'' @ str_int (handle s + 4))}"
    unfolding example_text_edges by auto
  have ids: "set ?ids = {''x'' @ str_int (handle s), ''x'' @ str_int (handle s + 1),
     ''x'' @ str_int (handle s + 2), ''x'' @ str_int (handle s + 3), ''x'' @ str_int (handle s + 4)}"
    unfolding created_simpleAST_labels by simp
  have decl: "set (declared ?t) = {''x'' @ str_int (handle s), ''x'' @ str_int (handle s + 1),
     ''x'' @ str_int (handle s + 2), ''x'' @ str_int (handle s + 3), ''x'' @ str_int (handle s + 4)}"
    by (simp add: t example_text_declared)
  from pq show "p \<in> set ?ids" unfolding ids by auto
  from pq show "q \<in> set ?ids" unfolding ids by auto
  from pq show "p \<in> set (declared ?t)" unfolding decl by auto
  from pq show "q \<in> set (declared ?t)" unfolding decl by auto
qed

text \<open>
  The statement at the first edge line of the text built in the initial state.
\<close>

theorem simpleAST_edges_between_created_nodes_witness:
  "''x0 -> x2'' \<in> set (splitlines (text_of (fst (simpleAST init))))
   \<and> edge_ends ''x0 -> x2'' = Some (''x0'', ''x2'')
   \<and> ''x0'' \<in> set (created simpleAST_labels init)
   \<and> ''x2'' \<in> set (created simpleAST_labels init)
   \<and> ''x0'' \<in> set (declared (text_of (fst (simpleAST init))))
   \<and> ''x2'' \<in> set (declared (text_of (fst (simpleAST init))))"
proof -
  have l: "''x0 -> x2'' \<in> set (splitlines (text_of (fst (simpleAST init))))"
    by (simp add: simpleAST_eq init_def example_text_lines str_int_digits)
  have e: "edge_ends ''x0 -> x2'' = Some (''x0'', ''x2'')"
    by (simp add: edge_ends_def)
  from simpleAST_edges_between_created_nodes[of init] l e show ?thesis by blast
qed


end
